theory Spec2Isabelle
  imports Complex_Main "HOL-Library.Multiset"
begin

section \<open>Bayesian Personalized Ranking: the recommender of cornac/models/bpr/recom\_bpr.py\<close>

text \<open>
  The class \<open>BPR\<close> holds two factor matrices and offers \<open>fit\<close>, \<open>score\<close> and
  \<open>rank\<close>. The model below follows the Python statement by statement.

  \<^item> Floating-point numbers are idealised as \<^typ>\<open>real\<close>: no rounding, no NaN.
  \<^item> User and item indices are the non-negative mapped ids of the framework, so they are
    \<^typ>\<open>nat\<close>; a negative Python index is outside the model.
  \<^item> A two-dimensional numpy array is the list of its rows.
  \<^item> Every exception the Python can raise is a value \<open>Inl e\<close>; each method returns its
    result together with the object state it leaves behind.
  \<^item> Four pieces of the repository are used by the class but are not part of the file:
    the base class \<open>Recommender\<close>, the training set class, the training routine \<open>bpr\<close>
    and the inherited method \<open>default_score\<close>. The training set is a record whose
    queries are fields, the training routine and the default score are parameters.
  \<^item> numpy's \<open>argsort\<close> is a parameter of \<open>rank\<close> as well: the order it gives to equal
    values depends on the sorting routine numpy picks, so the results below are proved
    for every function that returns the indices in ascending order of their values.
  \<^item> Printing under \<open>verbose\<close> is not modelled.
\<close>

subsection \<open>Errors\<close>

text \<open>
  \<open>ScoreException\<close> is the one exception the class raises itself. The next five are the
  built-in Python exceptions the statements of the class can raise. \<open>NotFittedError\<close> is
  the error kind the specification names; no statement of the source raises it.
\<close>

datatype error =
    ScoreException
  | AttributeError
  | TypeError
  | IndexError
  | ValueError
  | KeyError
  | NotFittedError

subsection \<open>Arrays\<close>

type_synonym vector = "real list"
type_synonym ndarray = "real list list"

text \<open>\<open>A[i, :]\<close> on an attribute that may still be \<open>None\<close>.\<close>

definition getrow :: "ndarray option \<Rightarrow> nat \<Rightarrow> error + vector" where
  "getrow A i =
     (case A of
        None \<Rightarrow> Inl TypeError
      | Some rows \<Rightarrow> if i < length rows then Inr (rows ! i) else Inl IndexError)"

text \<open>The sum of the products of two vectors.\<close>

definition inner :: "vector \<Rightarrow> vector \<Rightarrow> real" where
  "inner a b = sum_list (map2 (*) a b)"

text \<open>\<open>a.dot(b)\<close> for two one-dimensional arrays: the lengths must agree.\<close>

definition dot :: "vector \<Rightarrow> vector \<Rightarrow> error + real" where
  "dot a b = (if length a = length b then Inr (inner a b) else Inl ValueError)"

text \<open>\<open>A.dot(b)\<close> for a two-dimensional \<open>A\<close>: every row must have the length of \<open>b\<close>.\<close>

definition matvec :: "ndarray \<Rightarrow> vector \<Rightarrow> error + vector" where
  "matvec A b =
     (if list_all (\<lambda>r. length r = length b) A then Inr (map (\<lambda>r. inner r b) A)
      else Inl ValueError)"

text \<open>
  \<open>xs.argsort()\<close> returns the indices of \<open>xs\<close> in ascending order of their values, each
  index once. That is all the class can rely on, and it is what \<open>is_argsort\<close> says of
  a function.
\<close>

definition is_argsort :: "(vector \<Rightarrow> nat list) \<Rightarrow> bool" where
  "is_argsort srt =
     (\<forall>xs. mset (srt xs) = mset [0..<length xs] \<and> sorted (map (\<lambda>i. xs ! i) (srt xs)))"

text \<open>
  numpy's default sort is an insertion sort on short arrays, which keeps equal values in
  index order; \<open>stable_argsort\<close> is that sort, at every length.
\<close>

definition stable_argsort :: "vector \<Rightarrow> nat list" where
  "stable_argsort xs = sort_key (\<lambda>i. xs ! i) [0..<length xs]"

text \<open>Python's \<open>max\<close> of a sequence; the empty sequence raises.\<close>

fun py_max :: "nat list \<Rightarrow> error + nat" where
  "py_max [] = Inl ValueError"
| "py_max (x # xs) = Inr (fold max xs x)"

text \<open>
  \<open>xs[:n] = ys\<close> for \<open>n \<le> len(xs)\<close>: the first \<open>n\<close> cells are overwritten. numpy
  broadcasts a one-element \<open>ys\<close> over the slice and rejects every other length mismatch.
\<close>

definition assign_prefix :: "vector \<Rightarrow> nat \<Rightarrow> vector \<Rightarrow> error + vector" where
  "assign_prefix xs n ys =
     (if length ys = n then Inr (ys @ drop n xs)
      else if length ys = 1 then Inr (replicate n (hd ys) @ drop n xs)
      else Inl ValueError)"

text \<open>\<open>np.in1d(xs, ys)\<close> and the selection \<open>xs[mask]\<close> by a boolean mask.\<close>

definition in1d :: "nat list \<Rightarrow> nat list \<Rightarrow> bool list" where
  "in1d xs ys = map (\<lambda>x. x \<in> set ys) xs"

definition select :: "nat list \<Rightarrow> bool list \<Rightarrow> nat list" where
  "select xs flags = map fst (filter snd (zip xs flags))"

subsection \<open>The training set and the model object\<close>

text \<open>
  Modelled from the spec: the training set class is not in the file. It is the data set
  collaborator of the specification, which exposes the interaction triples (row, column,
  value), the number of users, the number of items and the two unknown-id queries. The
  queries are fields, so every result below holds for any way of answering them.
\<close>

record train_set =
  matrix :: "(nat \<times> nat \<times> real) list"
  num_users :: nat
  num_items :: nat
  is_unk_user :: "nat \<Rightarrow> bool"
  is_unk_item :: "nat \<Rightarrow> bool"

text \<open>
  The attributes of a \<open>BPR\<close> object. \<open>name\<close>, \<open>trainable\<close>, \<open>verbose\<close> and
  \<open>train_set\<close> belong to the base class; \<open>init_params\<close> is a dictionary from strings
  to arrays that may be \<open>None\<close>.
\<close>

record BPR =
  name :: string
  trainable :: bool
  verbose :: bool
  train_set :: "train_set option"
  k :: int
  init_params :: "string \<rightharpoonup> ndarray option"
  max_iter :: int
  learning_rate :: real
  lamda :: real
  batch_size :: int
  U :: "ndarray option"
  V :: "ndarray option"

text \<open>
  The training routine \<open>bpr\<close> of the sibling module, a parameter of \<open>fit\<close>: it takes the
  matrix, the triples as rows, \<open>k\<close>, \<open>n_epochs\<close>, \<open>lamda\<close>, \<open>learning_rate\<close>,
  \<open>batch_size\<close> and \<open>init_params\<close>, and returns a dictionary.
\<close>

type_synonym bpr_routine =
  "(nat \<times> nat \<times> real) list \<Rightarrow> ndarray \<Rightarrow> int \<Rightarrow> int \<Rightarrow> real \<Rightarrow> real \<Rightarrow> int
     \<Rightarrow> (string \<rightharpoonup> ndarray option) \<Rightarrow> (string \<rightharpoonup> ndarray)"

subsection \<open>The constructor\<close>

text \<open>
  \<open>__init__\<close> calls the base constructor with \<open>name\<close>, \<open>trainable\<close> and \<open>verbose\<close>
  only, then stores every argument as it is. The base class is not in the file: its
  constructor keeps the three values and leaves the object without a training set
  (\<open>train_set = None\<close>), the state the specification calls uninitialised. The two
  dictionary reads raise \<open>KeyError\<close> on a missing key.
\<close>

definition BPR_init ::
  "int \<Rightarrow> int \<Rightarrow> real \<Rightarrow> real \<Rightarrow> int \<Rightarrow> string \<Rightarrow> bool \<Rightarrow> bool
     \<Rightarrow> (string \<rightharpoonup> ndarray option) \<Rightarrow> error + BPR" where
  "BPR_init k0 max_iter0 learning_rate0 lamda0 batch_size0 name0 trainable0 verbose0 init_params0 =
     (case init_params0 ''U'' of
        None \<Rightarrow> Inl KeyError
      | Some u0 \<Rightarrow>
          (case init_params0 ''V'' of
             None \<Rightarrow> Inl KeyError
           | Some v0 \<Rightarrow>
               Inr \<lparr> name = name0, trainable = trainable0, verbose = verbose0,
                     train_set = None, k = k0, init_params = init_params0,
                     max_iter = max_iter0, learning_rate = learning_rate0, lamda = lamda0,
                     batch_size = batch_size0, U = u0, V = v0 \<rparr>))"

subsection \<open>fit\<close>

text \<open>
  Modelled from the spec: the base class's \<open>fit\<close> is not in the file; it attaches the
  data set to the object, which the next statement of \<open>BPR.fit\<close> reads back as
  \<open>self.train_set.matrix\<close>.
\<close>

definition Recommender_fit :: "BPR \<Rightarrow> train_set \<Rightarrow> BPR" where
  "Recommender_fit m ts = m\<lparr>train_set := Some ts\<rparr>"

text \<open>
  \<open>BPR.fit\<close>: after the base class's \<open>fit\<close>, when the model is trainable the triples
  are laid out as rows \<open>[row, col, value]\<close>, the training routine runs, and \<open>U\<close> then
  \<open>V\<close> are read from its result; otherwise nothing else happens.
\<close>

definition fit :: "bpr_routine \<Rightarrow> BPR \<Rightarrow> train_set \<Rightarrow> (error + unit) \<times> BPR" where
  "fit bpr m ts =
     (let m1 = Recommender_fit m ts
      in case train_set m1 of
           None \<Rightarrow> (Inl AttributeError, m1)
         | Some t \<Rightarrow>
             (let X = matrix t
              in if trainable m1 then
                   (let data = map (\<lambda>(r, c, v). [real r, real c, v]) X;
                        res = bpr X data (k m1) (max_iter m1) (lamda m1) (learning_rate m1)
                                (batch_size m1) (init_params m1)
                    in case res ''U'' of
                         None \<Rightarrow> (Inl KeyError, m1)
                       | Some u1 \<Rightarrow>
                           (let m2 = m1\<lparr>U := Some u1\<rparr>
                            in case res ''V'' of
                                 None \<Rightarrow> (Inl KeyError, m2)
                               | Some v1 \<Rightarrow> (Inr (), m2\<lparr>V := Some v1\<rparr>)))
                 else (Inr (), m1)))"

subsection \<open>score\<close>

text \<open>
  \<open>self.V[item_id, :].dot(self.U[user_id, :])\<close>, in Python's evaluation order: the row
  of \<open>V\<close>, then the row of \<open>U\<close>, then the product.
\<close>

definition user_pred :: "BPR \<Rightarrow> nat \<Rightarrow> nat \<Rightarrow> error + real" where
  "user_pred m user_id item_id =
     (case getrow (V m) item_id of
        Inl e \<Rightarrow> Inl e
      | Inr vi \<Rightarrow>
          (case getrow (U m) user_id of
             Inl e \<Rightarrow> Inl e
           | Inr uu \<Rightarrow> dot vi uu))"

definition score :: "BPR \<Rightarrow> nat \<Rightarrow> nat \<Rightarrow> (error + real) \<times> BPR" where
  "score m user_id item_id =
     (case train_set m of
        None \<Rightarrow> (Inl AttributeError, m)
      | Some ts \<Rightarrow>
          if is_unk_user ts user_id \<or> is_unk_item ts item_id then (Inl ScoreException, m)
          else (user_pred m user_id item_id, m))"

subsection \<open>rank\<close>

text \<open>
  \<open>self.V.dot(self.U[user_id, :])\<close>: the attribute \<open>dot\<close> is looked up on \<open>V\<close> first,
  then the row of \<open>U\<close> is read, then the product is taken.
\<close>

definition known_item_scores :: "BPR \<Rightarrow> nat \<Rightarrow> error + vector" where
  "known_item_scores m user_id =
     (case V m of
        None \<Rightarrow> Inl AttributeError
      | Some Vm \<Rightarrow>
          (case getrow (U m) user_id of
             Inl e \<Rightarrow> Inl e
           | Inr uu \<Rightarrow> matvec Vm uu))"

text \<open>
  The branch for a known user with candidates: the score vector is as long as the larger
  of the item count and the largest candidate plus one, filled with the default score,
  its first cells overwritten by the known scores; it is sorted, reversed, and masked by
  membership in the candidates.
\<close>

definition rank_candidates ::
  "(vector \<Rightarrow> nat list) \<Rightarrow> real \<Rightarrow> train_set \<Rightarrow> vector \<Rightarrow> nat list \<Rightarrow> error + nat list" where
  "rank_candidates argsort default_score ts known candidate_item_ids =
     (case py_max candidate_item_ids of
        Inl e \<Rightarrow> Inl e
      | Inr mx \<Rightarrow>
          (let n = max (num_items ts) (mx + 1)
           in case assign_prefix (replicate n default_score) (num_items ts) known of
                Inl e \<Rightarrow> Inl e
              | Inr user_pref_scores \<Rightarrow>
                  (let ranked_item_ids = rev (argsort user_pref_scores);
                       flags = in1d ranked_item_ids candidate_item_ids
                   in Inr (select ranked_item_ids flags))))"

text \<open>
  \<open>rank\<close>; the first parameter is numpy's \<open>argsort\<close>, the second the value the
  inherited \<open>default_score()\<close> returns.
\<close>

definition rank ::
  "(vector \<Rightarrow> nat list) \<Rightarrow> real \<Rightarrow> BPR \<Rightarrow> nat \<Rightarrow> nat list option
     \<Rightarrow> (error + nat list) \<times> BPR" where
  "rank argsort default_score m user_id candidate_item_ids =
     (case train_set m of
        None \<Rightarrow> (Inl AttributeError, m)
      | Some ts \<Rightarrow>
          if is_unk_user ts user_id then
            (case candidate_item_ids of
               None \<Rightarrow> (Inr [0..<num_items ts], m)
             | Some cs \<Rightarrow> (Inr cs, m))
          else
            (case known_item_scores m user_id of
               Inl e \<Rightarrow> (Inl e, m)
             | Inr known \<Rightarrow>
                 (case candidate_item_ids of
                    None \<Rightarrow> (Inr (rev (argsort known)), m)
                  | Some cs \<Rightarrow> (rank_candidates argsort default_score ts known cs, m))))"

subsection \<open>A small fitted model\<close>

text \<open>
  Three users, four items, two latent dimensions. For user 0 the item scores are
  \<open>[2, 2, 0, 1]\<close>: items 0 and 1 tie.
\<close>

definition ts3x4 :: train_set where
  "ts3x4 = \<lparr> matrix = [(0, 0, 1), (0, 1, 1), (1, 2, 1), (2, 3, 1)],
             num_users = 3, num_items = 4,
             is_unk_user = (\<lambda>u. 3 \<le> u), is_unk_item = (\<lambda>i. 4 \<le> i) \<rparr>"

definition U3 :: ndarray where
  "U3 = [[1, 0], [0, 1], [1, 1]]"

definition V4 :: ndarray where
  "V4 = [[2, 1], [2, 3], [0, 5], [1, 1]]"

definition no_factors :: "string \<rightharpoonup> ndarray option" where
  "no_factors = [''U'' \<mapsto> None, ''V'' \<mapsto> None]"

definition given_factors :: "string \<rightharpoonup> ndarray option" where
  "given_factors = [''U'' \<mapsto> Some U3, ''V'' \<mapsto> Some V4]"

definition fresh :: BPR where
  "fresh = \<lparr> name = ''bpr'', trainable = True, verbose = False, train_set = None, k = 5,
             init_params = no_factors, max_iter = 100, learning_rate = 1 / 1000,
             lamda = 1 / 1000, batch_size = 100, U = None, V = None \<rparr>"

definition pretrained :: BPR where
  "pretrained = \<lparr> name = ''bpr'', trainable = False, verbose = False, train_set = None, k = 2,
                  init_params = given_factors, max_iter = 100, learning_rate = 1 / 1000,
                  lamda = 1 / 1000, batch_size = 100, U = Some U3, V = Some V4 \<rparr>"

definition fitted :: BPR where
  "fitted = pretrained\<lparr>train_set := Some ts3x4\<rparr>"

definition bpr_zero :: bpr_routine where
  "bpr_zero X data k0 n_epochs lam lr bs ip = [''U'' \<mapsto> [[0]], ''V'' \<mapsto> [[0]]]"

section \<open>Facts about the array operations\<close>

lemma select_in1d: "select xs (in1d xs ys) = filter (\<lambda>x. x \<in> set ys) xs"
  by (induction xs) (simp_all add: select_def in1d_def)

lemma py_max_nonempty: "cs \<noteq> [] \<Longrightarrow> py_max cs = Inr (Max (set cs))"
  by (cases cs) (simp_all add: Max.set_eq_fold [symmetric])

lemma inner_sum_nth:
  "length a = length b \<Longrightarrow> inner a b = (\<Sum>j<length a. a ! j * b ! j)"
  by (simp add: inner_def sum_list_sum_nth atLeast0LessThan)

subsection \<open>argsort and its reversal\<close>

lemma is_argsort_stable: "is_argsort stable_argsort"
  by (simp add: is_argsort_def stable_argsort_def)

lemma stable_argsort_ties:
  "filter (\<lambda>i. xs ! i = s) (stable_argsort xs) = filter (\<lambda>i. xs ! i = s) [0..<length xs]"
  unfolding stable_argsort_def by (rule sort_key_stable)

text \<open>
  If, for each key, the elements with that key come in ascending order, then any two
  elements with equal keys come in ascending order.
\<close>

lemma ties_in_order:
  "(\<And>s. sorted_wrt (<) (filter (\<lambda>i. f i = s) xs)) \<Longrightarrow>
     sorted_wrt (\<lambda>i j. f i = f j \<longrightarrow> i < (j::nat)) xs"
proof (induction xs)
  case Nil
  then show ?case by simp
next
  case (Cons x xs)
  have tail: "sorted_wrt (<) (filter (\<lambda>i. f i = s) xs)" for s
    using Cons.prems [of s] by (simp split: if_splits)
  have head: "\<forall>y\<in>set xs. f x = f y \<longrightarrow> x < y"
    using Cons.prems [of "f x"] by auto
  from Cons.IH [OF tail] head show ?case by simp
qed

lemma mset_ranked: "is_argsort srt \<Longrightarrow> mset (rev (srt xs)) = mset [0..<length xs]"
  by (simp add: is_argsort_def)

lemma descending_ranked:
  assumes "is_argsort srt"
  shows "sorted_wrt (\<lambda>i j. xs ! j \<le> xs ! i) (rev (srt xs))"
proof -
  have "sorted (map (\<lambda>i. xs ! i) (srt xs))"
    using assms by (simp add: is_argsort_def)
  then show ?thesis
    by (simp add: sorted_wrt_rev sorted_map)
qed

lemma ties_ranked:
  "sorted_wrt (\<lambda>i j. xs ! i = xs ! j \<longrightarrow> j < i) (rev (stable_argsort xs))"
proof -
  have "sorted_wrt (<) (filter (\<lambda>i. xs ! i = s) (stable_argsort xs))" for s
    by (simp add: stable_argsort_ties sorted_wrt_filter)
  then have "sorted_wrt (\<lambda>i j. xs ! i = xs ! j \<longrightarrow> i < j) (stable_argsort xs)"
    by (rule ties_in_order)
  then show ?thesis
    by (simp add: sorted_wrt_rev eq_commute)
qed

section \<open>Facts about the methods\<close>

lemma known_item_scores_shape:
  assumes "U m = Some Um" and "V m = Some Vm" and "u < length Um"
    and "\<forall>r\<in>set Vm. length r = length (Um ! u)"
  shows "known_item_scores m u = Inr (map (\<lambda>r. inner r (Um ! u)) Vm)"
  using assms by (simp add: known_item_scores_def getrow_def matvec_def list_all_iff)

lemma rank_known_all:
  assumes "train_set m = Some ts" and "\<not> is_unk_user ts u"
    and "known_item_scores m u = Inr known"
  shows "rank srt d m u None = (Inr (rev (srt known)), m)"
  using assms by (simp add: rank_def)

lemma rank_known_candidates:
  assumes "train_set m = Some ts" and "\<not> is_unk_user ts u"
    and "known_item_scores m u = Inr known"
  shows "rank srt d m u (Some cs) = (rank_candidates srt d ts known cs, m)"
  using assms by (simp add: rank_def)

lemma rank_candidates_nonempty:
  assumes "cs \<noteq> []" and "length known = num_items ts"
  shows "rank_candidates srt d ts known cs =
           Inr (filter (\<lambda>i. i \<in> set cs)
                  (rev (srt (known @ replicate (Max (set cs) + 1 - num_items ts) d))))"
  using assms
  by (simp add: rank_candidates_def py_max_nonempty assign_prefix_def select_in1d Let_def max_def)

lemma user_pred_error:
  "user_pred m u i = Inl e \<Longrightarrow> e = TypeError \<or> e = IndexError \<or> e = ValueError"
  by (auto simp: user_pred_def getrow_def dot_def split: option.splits if_splits sum.splits)

lemma fitted_train_set: "train_set fitted = Some ts3x4"
  by (simp add: fitted_def)

lemma fitted_U: "U fitted = Some U3"
  by (simp add: fitted_def pretrained_def)

lemma fitted_V: "V fitted = Some V4"
  by (simp add: fitted_def pretrained_def)

lemma V4_rows: "\<forall>r\<in>set V4. length r = length (U3 ! 0)"
  by (simp add: V4_def U3_def)

lemma V4_rows_all: "list_all (\<lambda>r. length r = length (U3 ! 0)) V4"
  by (simp add: V4_def U3_def)

text \<open>
  With a non-empty list of candidates that all lie within the trained items, the
  restricted ranking is the full ranking filtered to the candidates.
\<close>

lemma rank_candidates_within:
  assumes "train_set m = Some ts" and "\<not> is_unk_user ts u"
    and "U m = Some Um" and "V m = Some Vm" and "u < length Um"
    and "\<forall>r\<in>set Vm. length r = length (Um ! u)"
    and "length Vm = num_items ts"
    and "cs \<noteq> []" and "\<forall>c\<in>set cs. c < num_items ts"
  shows "\<exists>r. rank srt d m u None = (Inr r, m)
           \<and> rank srt d m u (Some cs) = (Inr (filter (\<lambda>i. i \<in> set cs) r), m)"
proof -
  define known where "known = map (\<lambda>r. inner r (Um ! u)) Vm"
  have len_known: "length known = num_items ts"
    by (simp add: known_def assms(7))
  have known: "known_item_scores m u = Inr known"
    unfolding known_def using assms(3-6) by (rule known_item_scores_shape)
  have "Max (set cs) \<in> set cs"
    using assms(8) by simp
  then have "Max (set cs) < num_items ts"
    using assms(9) by blast
  then have none: "known @ replicate (Max (set cs) + 1 - num_items ts) d = known"
    by simp
  have all: "rank srt d m u None = (Inr (rev (srt known)), m)"
    using assms(1,2) known by (rule rank_known_all)
  have "rank srt d m u (Some cs) = (rank_candidates srt d ts known cs, m)"
    using assms(1,2) known by (rule rank_known_candidates)
  also have "rank_candidates srt d ts known cs = Inr (filter (\<lambda>i. i \<in> set cs) (rev (srt known)))"
    using rank_candidates_nonempty [OF assms(8) len_known, of srt d] unfolding none .
  finally show ?thesis
    using all by blast
qed

text \<open>
  With a non-empty list of pairwise distinct candidates, the restricted ranking is a
  permutation of the candidates.
\<close>

lemma rank_candidates_perm:
  assumes "train_set m = Some ts" and "\<not> is_unk_user ts u"
    and "U m = Some Um" and "V m = Some Vm" and "u < length Um"
    and "\<forall>r\<in>set Vm. length r = length (Um ! u)"
    and "length Vm = num_items ts"
    and "cs \<noteq> []" and "distinct cs"
    and "is_argsort srt"
  shows "\<exists>r. rank srt d m u (Some cs) = (Inr r, m) \<and> mset r = mset cs"
proof -
  define known where "known = map (\<lambda>r. inner r (Um ! u)) Vm"
  define ext where "ext = known @ replicate (Max (set cs) + 1 - num_items ts) d"
  define r where "r = filter (\<lambda>i. i \<in> set cs) (rev (srt ext))"
  have len_known: "length known = num_items ts"
    by (simp add: known_def assms(7))
  have known: "known_item_scores m u = Inr known"
    unfolding known_def using assms(3-6) by (rule known_item_scores_shape)
  have "rank srt d m u (Some cs) = (rank_candidates srt d ts known cs, m)"
    using assms(1,2) known by (rule rank_known_candidates)
  also have "rank_candidates srt d ts known cs = Inr r"
    unfolding r_def ext_def using assms(8) len_known by (rule rank_candidates_nonempty)
  finally have res: "rank srt d m u (Some cs) = (Inr r, m)" .
  have len: "Max (set cs) < length ext"
    by (simp add: ext_def len_known)
  have "mset (rev (srt ext)) = mset [0..<length ext]"
    using assms(10) by (rule mset_ranked)
  then have set_full: "set (rev (srt ext)) = {0..<length ext}"
    and dist_full: "distinct (rev (srt ext))"
    by (metis set_mset_mset set_upt, metis distinct_upt mset_eq_imp_distinct_iff)
  have "c < length ext" if "c \<in> set cs" for c
  proof -
    have "c \<le> Max (set cs)"
      using that by simp
    with len show ?thesis by simp
  qed
  then have "set r = set cs"
    using set_full by (auto simp: r_def)
  moreover have "distinct r"
    using dist_full by (simp add: r_def)
  ultimately have "mset r = mset cs"
    using assms(9) by (simp add: set_eq_iff_mset_eq_distinct)
  with res show ?thesis by blast
qed

section \<open>The claims\<close>

subsection \<open>C1: the order of the full ranking\<close>

text \<open>
  C1, as the code has it. For a known user whose row of \<open>U\<close> exists and fits the rows of
  \<open>V\<close>, \<open>rank\<close> without candidates returns every item index exactly once, in
  non-increasing order of the scores \<open>V \<cdot> U[u, :]\<close>, whatever sorting routine \<open>argsort\<close>
  is. The result is the reversal of what \<open>argsort\<close> returns, ties included: when
  \<open>argsort\<close> is the stable sort, two items with equal scores come in descending index
  order. The object is left as it was.
\<close>

theorem rank_all_descending:
  assumes "is_argsort srt"
    and "train_set m = Some ts" and "\<not> is_unk_user ts u"
    and "U m = Some Um" and "V m = Some Vm" and "u < length Um"
    and "\<forall>r\<in>set Vm. length r = length (Um ! u)"
  shows "\<exists>r. rank srt d m u None = (Inr r, m)
           \<and> r = rev (srt (map (\<lambda>v. inner v (Um ! u)) Vm))
           \<and> mset r = mset [0..<length Vm]
           \<and> sorted_wrt (\<lambda>i j. inner (Vm ! j) (Um ! u) \<le> inner (Vm ! i) (Um ! u)) r
           \<and> (srt = stable_argsort \<longrightarrow>
                sorted_wrt (\<lambda>i j. inner (Vm ! i) (Um ! u) = inner (Vm ! j) (Um ! u) \<longrightarrow> j < i) r)"
proof -
  define sc where "sc = map (\<lambda>v. inner v (Um ! u)) Vm"
  define r where "r = rev (srt sc)"
  have known: "known_item_scores m u = Inr sc"
    unfolding sc_def using assms(4-7) by (rule known_item_scores_shape)
  have res: "rank srt d m u None = (Inr r, m)"
    unfolding r_def using assms(2,3) known by (rule rank_known_all)
  have perm: "mset r = mset [0..<length Vm]"
    unfolding r_def mset_ranked [OF assms(1)] by (simp add: sc_def)
  have inr: "\<forall>i\<in>set r. i < length Vm"
    using perm by (metis atLeastLessThan_iff set_mset_mset set_upt)
  have nth: "sc ! i = inner (Vm ! i) (Um ! u)" if "i < length Vm" for i
    using that by (simp add: sc_def)
  have "sorted_wrt (\<lambda>i j. sc ! j \<le> sc ! i) r"
    unfolding r_def using assms(1) by (rule descending_ranked)
  then have desc: "sorted_wrt (\<lambda>i j. inner (Vm ! j) (Um ! u) \<le> inner (Vm ! i) (Um ! u)) r"
    by (rule sorted_wrt_mono_rel [rotated]) (use inr nth in auto)
  have ties: "sorted_wrt (\<lambda>i j. inner (Vm ! i) (Um ! u) = inner (Vm ! j) (Um ! u) \<longrightarrow> j < i) r"
    if stable: "srt = stable_argsort"
  proof -
    have "sorted_wrt (\<lambda>i j. sc ! i = sc ! j \<longrightarrow> j < i) r"
      unfolding r_def stable by (rule ties_ranked)
    then show ?thesis
      by (rule sorted_wrt_mono_rel [rotated]) (use inr nth in auto)
  qed
  from res perm desc ties show ?thesis
    unfolding r_def sc_def by blast
qed

text \<open>The theorem at user 0 of the small fitted model.\<close>

theorem rank_all_descending_witness:
  "is_argsort stable_argsort
     \<and> train_set fitted = Some ts3x4 \<and> \<not> is_unk_user ts3x4 0
     \<and> U fitted = Some U3 \<and> V fitted = Some V4 \<and> 0 < length U3
     \<and> list_all (\<lambda>r. length r = length (U3 ! 0)) V4
     \<and> (\<exists>r. rank stable_argsort 0 fitted 0 None = (Inr r, fitted)
           \<and> r = rev (stable_argsort (map (\<lambda>v. inner v (U3 ! 0)) V4))
           \<and> mset r = mset [0..<length V4]
           \<and> sorted_wrt (\<lambda>i j. inner (V4 ! j) (U3 ! 0) \<le> inner (V4 ! i) (U3 ! 0)) r
           \<and> sorted_wrt (\<lambda>i j. inner (V4 ! i) (U3 ! 0) = inner (V4 ! j) (U3 ! 0) \<longrightarrow> j < i) r)"
proof -
  have known: "\<not> is_unk_user ts3x4 0"
    by (simp add: ts3x4_def)
  have row: "0 < length U3"
    by (simp add: U3_def)
  note hyps = is_argsort_stable fitted_train_set known fitted_U fitted_V row
  from rank_all_descending [OF hyps V4_rows, of 0] hyps V4_rows_all show ?thesis
    by blast
qed

text \<open>
  C1, as stated, fails. Items 0 and 1 both score 2 for user 0; the stable sort, which
  numpy uses on an array of four values, leaves them in index order, the reversal puts
  item 1 before item 0. Ascending index order on ties would give \<open>[0, 1, 3, 2]\<close>.
\<close>

theorem rank_tie_order_counterexample:
  "fst (rank stable_argsort 0 fitted 0 None) = Inr [1, 0, 3, 2]
     \<and> fst (score fitted 0 0) = Inr 2 \<and> fst (score fitted 0 1) = Inr 2"
  by code_simp

subsection \<open>C2: restricted ranking against the full ranking\<close>

text \<open>
  C2 at the empty candidate list, which is a subset of the trained items. The maximum of
  the candidates is taken before anything else, so the call raises \<open>ValueError\<close>, where
  the full ranking \<open>[1, 0, 3, 2]\<close> filtered to no candidate is the empty sequence.
\<close>

theorem rank_subset_empty_candidates:
  "fst (rank stable_argsort 0 fitted 0 (Some [])) = Inl ValueError
     \<and> fst (rank stable_argsort 0 fitted 0 None) = Inr [1, 0, 3, 2]
     \<and> filter (\<lambda>i. i \<in> set []) [1, 0, 3, 2] = ([] :: nat list)"
  by code_simp

subsection \<open>C3: scoring an unknown user or item\<close>

text \<open>
  C3. Once a training set is attached, \<open>score\<close> raises \<open>ScoreException\<close> exactly when the
  user or the item is unknown to that training set; so an unknown user or item never
  gets a number, and no known pair gets this exception.
\<close>

theorem score_unknown_iff:
  assumes "train_set m = Some ts"
  shows "(score m u i = (Inl ScoreException, m)) = (is_unk_user ts u \<or> is_unk_item ts i)"
proof (cases "is_unk_user ts u \<or> is_unk_item ts i")
  case True
  with assms show ?thesis by (simp add: score_def)
next
  case False
  have "user_pred m u i \<noteq> Inl ScoreException"
    using user_pred_error [of m u i ScoreException] by auto
  with assms False show ?thesis by (simp add: score_def)
qed

text \<open>The theorem at a known user and the unknown item 4.\<close>

theorem score_unknown_iff_witness:
  "train_set fitted = Some ts3x4
     \<and> (score fitted 0 4 = (Inl ScoreException, fitted)) = (is_unk_user ts3x4 0 \<or> is_unk_item ts3x4 4)
     \<and> is_unk_item ts3x4 4"
  using score_unknown_iff [of fitted ts3x4 0 4] fitted_train_set by (simp add: ts3x4_def)

subsection \<open>C4: scoring and ranking before fit\<close>

text \<open>
  C4, as the code has it. A model constructed with \<open>trainable = True\<close> and no initial
  factors has no training set until \<open>fit\<close> runs; \<open>score\<close> and \<open>rank\<close> read the training
  set first, so both raise \<open>AttributeError\<close>, return no score or ranking, and leave the
  object as it was.
\<close>

theorem before_fit_attribute_error:
  assumes "BPR_init k0 mi lr lam bs nm True vb ip = Inr m"
    and "ip ''U'' = Some None" and "ip ''V'' = Some None"
  shows "score m u i = (Inl AttributeError, m) \<and> rank srt d m u cs = (Inl AttributeError, m)"
proof -
  have "train_set m = None"
    using assms by (auto simp: BPR_init_def)
  then show ?thesis by (simp add: score_def rank_def)
qed

text \<open>The theorem at the model built with the default arguments.\<close>

theorem before_fit_attribute_error_witness:
  "BPR_init 5 100 (1 / 1000) (1 / 1000) 100 ''bpr'' True False no_factors = Inr fresh
     \<and> no_factors ''U'' = Some None \<and> no_factors ''V'' = Some None
     \<and> score fresh 0 0 = (Inl AttributeError, fresh)
     \<and> rank stable_argsort 0 fresh 0 None = (Inl AttributeError, fresh)"
proof -
  have built: "BPR_init 5 100 (1 / 1000) (1 / 1000) 100 ''bpr'' True False no_factors = Inr fresh"
    by (simp add: BPR_init_def no_factors_def fresh_def)
  have none: "no_factors ''U'' = Some None" "no_factors ''V'' = Some None"
    by (simp_all add: no_factors_def)
  show ?thesis
    using before_fit_attribute_error [OF built none, of 0 0 stable_argsort 0 None] built none
    by blast
qed

text \<open>
  C4, as stated, fails: the model built with the default arguments answers \<open>score\<close>
  with \<open>AttributeError\<close>, which is not \<open>NotFittedError\<close>.
\<close>

theorem score_before_fit_counterexample:
  "BPR_init 5 100 (1 / 1000) (1 / 1000) 100 ''bpr'' True False no_factors = Inr fresh
     \<and> fst (score fresh 0 0) = Inl AttributeError
     \<and> fst (score fresh 0 0) \<noteq> Inl NotFittedError"
  by (simp add: BPR_init_def no_factors_def fresh_def score_def)

subsection \<open>C5: the constructor and its hyperparameters\<close>

text \<open>
  C5, as the code has it. The constructor checks no hyperparameter: whatever \<open>k\<close>,
  \<open>max_iter\<close>, \<open>learning_rate\<close> and \<open>lamda\<close> are, it succeeds as soon as \<open>init_params\<close>
  has the keys \<open>U\<close> and \<open>V\<close>, and the object holds every argument as given.
\<close>

theorem init_stores_unchecked:
  assumes "ip ''U'' = Some u0" and "ip ''V'' = Some v0"
  shows "BPR_init k0 mi lr lam bs nm tr vb ip =
           Inr \<lparr> name = nm, trainable = tr, verbose = vb, train_set = None, k = k0,
                 init_params = ip, max_iter = mi, learning_rate = lr, lamda = lam,
                 batch_size = bs, U = u0, V = v0 \<rparr>"
  using assms by (simp add: BPR_init_def)

text \<open>The theorem at \<open>k = 0\<close>, \<open>max_iter = -3\<close>, \<open>learning_rate = -1\<close>, \<open>lamda = -2\<close>.\<close>

theorem init_stores_unchecked_witness:
  "given_factors ''U'' = Some (Some U3) \<and> given_factors ''V'' = Some (Some V4)
     \<and> BPR_init 0 (- 3) (- 1) (- 2) 100 ''bpr'' False False given_factors =
         Inr \<lparr> name = ''bpr'', trainable = False, verbose = False, train_set = None, k = 0,
               init_params = given_factors, max_iter = - 3, learning_rate = - 1, lamda = - 2,
               batch_size = 100, U = Some U3, V = Some V4 \<rparr>"
proof -
  have keys: "given_factors ''U'' = Some (Some U3)" "given_factors ''V'' = Some (Some V4)"
    by (simp_all add: given_factors_def)
  show ?thesis
    using init_stores_unchecked [OF keys, of 0 "- 3" "- 1" "- 2" 100 "''bpr''" False False] keys
    by blast
qed

text \<open>
  C5, as stated, fails: with \<open>k = 0\<close>, \<open>max_iter = 0\<close>, \<open>learning_rate = -1\<close> and
  \<open>lamda = -1\<close> the constructor returns an object holding these values.
\<close>

theorem init_invalid_counterexample:
  "BPR_init 0 0 (- 1) (- 1) 100 ''bpr'' True False no_factors =
     Inr (fresh\<lparr>k := 0, max_iter := 0, learning_rate := - 1, lamda := - 1\<rparr>)"
  by (simp add: BPR_init_def no_factors_def fresh_def)

subsection \<open>C6: ranking for an unknown user\<close>

text \<open>
  C6. For a user unknown to the attached training set, \<open>rank\<close> returns the candidates
  it was given, unchanged and in their order, and without candidates it returns the
  indices \<open>0, 1, \<dots>, num_items - 1\<close>; it raises nothing and leaves the object as it was.
\<close>

theorem rank_unknown_user:
  assumes "train_set m = Some ts" and "is_unk_user ts u"
  shows "rank srt d m u (Some cs) = (Inr cs, m) \<and> rank srt d m u None = (Inr [0..<num_items ts], m)"
  using assms by (simp add: rank_def)

text \<open>The theorem at the unknown user 7.\<close>

theorem rank_unknown_user_witness:
  "train_set fitted = Some ts3x4 \<and> is_unk_user ts3x4 7
     \<and> rank stable_argsort 0 fitted 7 (Some [9, 2, 5]) = (Inr [9, 2, 5], fitted)
     \<and> rank stable_argsort 0 fitted 7 None = (Inr [0..<num_items ts3x4], fitted)"
proof -
  have unk: "is_unk_user ts3x4 7"
    by (simp add: ts3x4_def)
  show ?thesis
    using rank_unknown_user [OF fitted_train_set unk, of stable_argsort 0 "[9, 2, 5]"]
      fitted_train_set unk
    by blast
qed

subsection \<open>C7: candidates beyond the trained items\<close>

text \<open>
  C7. For a known user of a model whose \<open>V\<close> has one row per trained item, candidates
  of which at least one lies beyond the trained items, and any sorting routine
  \<open>argsort\<close>: the score vector \<open>ext\<close> is the
  known scores followed by the default score at every index up to the largest
  candidate; \<open>full\<close> is a permutation of all its indices in non-increasing order of
  \<open>ext\<close>; the result is \<open>full\<close> filtered to the candidates, and is still in
  non-increasing order of \<open>ext\<close>.
\<close>

theorem rank_unseen_candidates:
  assumes "train_set m = Some ts" and "\<not> is_unk_user ts u"
    and "U m = Some Um" and "V m = Some Vm" and "u < length Um"
    and "\<forall>r\<in>set Vm. length r = length (Um ! u)"
    and "length Vm = num_items ts"
    and "\<exists>c\<in>set cs. num_items ts \<le> c"
    and "is_argsort srt"
  shows "\<exists>ext full.
           ext = map (\<lambda>r. inner r (Um ! u)) Vm @ replicate (Max (set cs) + 1 - num_items ts) d
           \<and> length ext = Max (set cs) + 1
           \<and> mset full = mset [0..<length ext]
           \<and> sorted_wrt (\<lambda>i j. ext ! j \<le> ext ! i) full
           \<and> rank srt d m u (Some cs) = (Inr (filter (\<lambda>i. i \<in> set cs) full), m)
           \<and> sorted_wrt (\<lambda>i j. ext ! j \<le> ext ! i) (filter (\<lambda>i. i \<in> set cs) full)"
proof -
  define known where "known = map (\<lambda>r. inner r (Um ! u)) Vm"
  define ext where "ext = known @ replicate (Max (set cs) + 1 - num_items ts) d"
  define full where "full = rev (srt ext)"
  from assms(8) obtain c where c: "c \<in> set cs" "num_items ts \<le> c"
    by blast
  then have ne: "cs \<noteq> []"
    by auto
  have "c \<le> Max (set cs)"
    using c(1) by simp
  with c(2) have big: "num_items ts \<le> Max (set cs)"
    by simp
  have len_known: "length known = num_items ts"
    by (simp add: known_def assms(7))
  have len: "length ext = Max (set cs) + 1"
    using big by (simp add: ext_def len_known)
  have known: "known_item_scores m u = Inr known"
    unfolding known_def using assms(3-6) by (rule known_item_scores_shape)
  have "rank srt d m u (Some cs) = (rank_candidates srt d ts known cs, m)"
    using assms(1,2) known by (rule rank_known_candidates)
  also have "rank_candidates srt d ts known cs = Inr (filter (\<lambda>i. i \<in> set cs) full)"
    unfolding full_def ext_def using ne len_known by (rule rank_candidates_nonempty)
  finally have res: "rank srt d m u (Some cs) = (Inr (filter (\<lambda>i. i \<in> set cs) full), m)" .
  have perm: "mset full = mset [0..<length ext]"
    unfolding full_def using assms(9) by (rule mset_ranked)
  have desc: "sorted_wrt (\<lambda>i j. ext ! j \<le> ext ! i) full"
    unfolding full_def using assms(9) by (rule descending_ranked)
  then have desc': "sorted_wrt (\<lambda>i j. ext ! j \<le> ext ! i) (filter (\<lambda>i. i \<in> set cs) full)"
    by (rule sorted_wrt_filter)
  from len perm desc res desc' show ?thesis
    unfolding ext_def known_def by blast
qed

text \<open>The theorem at user 0 and the candidates 3, 1 and 6, of which 6 is not a trained item.\<close>

theorem rank_unseen_candidates_witness:
  "is_argsort stable_argsort
     \<and> train_set fitted = Some ts3x4 \<and> \<not> is_unk_user ts3x4 0
     \<and> U fitted = Some U3 \<and> V fitted = Some V4 \<and> 0 < length U3
     \<and> list_all (\<lambda>r. length r = length (U3 ! 0)) V4
     \<and> length V4 = num_items ts3x4
     \<and> (\<exists>c\<in>set [3, 1, 6]. num_items ts3x4 \<le> c)
     \<and> (\<exists>ext full.
           ext = map (\<lambda>r. inner r (U3 ! 0)) V4 @ replicate (Max (set [3, 1, 6]) + 1 - num_items ts3x4) 0
           \<and> length ext = Max (set [3, 1, 6]) + 1
           \<and> mset full = mset [0..<length ext]
           \<and> sorted_wrt (\<lambda>i j. ext ! j \<le> ext ! i) full
           \<and> rank stable_argsort 0 fitted 0 (Some [3, 1, 6]) = (Inr (filter (\<lambda>i. i \<in> set [3, 1, 6]) full), fitted)
           \<and> sorted_wrt (\<lambda>i j. ext ! j \<le> ext ! i) (filter (\<lambda>i. i \<in> set [3, 1, 6]) full))"
proof -
  have known: "\<not> is_unk_user ts3x4 0"
    by (simp add: ts3x4_def)
  have row: "0 < length U3"
    by (simp add: U3_def)
  have items: "length V4 = num_items ts3x4"
    by (simp add: V4_def ts3x4_def)
  have beyond: "\<exists>c\<in>set [3, 1, 6]. num_items ts3x4 \<le> c"
    by (simp add: ts3x4_def)
  note hyps = fitted_train_set known fitted_U fitted_V row
  from rank_unseen_candidates [OF hyps V4_rows items beyond is_argsort_stable, of 0]
    hyps V4_rows_all items beyond is_argsort_stable
  show ?thesis
    by blast
qed

subsection \<open>C8: the score of a known pair\<close>

text \<open>
  C8. For a known user and a known item whose rows exist and have the same length,
  \<open>score\<close> returns the sum over the latent dimensions of \<open>U[u, j] * V[i, j]\<close>, and the
  object it leaves behind is the object it was given: factors and training set are
  untouched.
\<close>

theorem score_known_dot:
  assumes "train_set m = Some ts" and "\<not> is_unk_user ts u" and "\<not> is_unk_item ts i"
    and "U m = Some Um" and "V m = Some Vm" and "u < length Um" and "i < length Vm"
    and "length (Um ! u) = length (Vm ! i)"
  shows "score m u i = (Inr (\<Sum>j<length (Um ! u). (Um ! u) ! j * (Vm ! i) ! j), m)"
proof -
  have "user_pred m u i = Inr (inner (Vm ! i) (Um ! u))"
    using assms(4-8) by (simp add: user_pred_def getrow_def dot_def)
  also have "inner (Vm ! i) (Um ! u) = (\<Sum>j<length (Um ! u). (Um ! u) ! j * (Vm ! i) ! j)"
    using assms(8) by (simp add: inner_sum_nth mult.commute)
  finally show ?thesis
    using assms(1-3) by (simp add: score_def)
qed

text \<open>The theorem at user 2 and item 1 of the small fitted model.\<close>

theorem score_known_dot_witness:
  "train_set fitted = Some ts3x4 \<and> \<not> is_unk_user ts3x4 2 \<and> \<not> is_unk_item ts3x4 1
     \<and> U fitted = Some U3 \<and> V fitted = Some V4 \<and> 2 < length U3 \<and> 1 < length V4
     \<and> length (U3 ! 2) = length (V4 ! 1)
     \<and> score fitted 2 1 = (Inr (\<Sum>j<length (U3 ! 2). (U3 ! 2) ! j * (V4 ! 1) ! j), fitted)"
proof -
  have known: "\<not> is_unk_user ts3x4 2" "\<not> is_unk_item ts3x4 1"
    by (simp_all add: ts3x4_def)
  have rows: "2 < length U3" "1 < length V4" "length (U3 ! 2) = length (V4 ! 1)"
    by (simp_all add: U3_def V4_def)
  note fitted_train_set known fitted_U fitted_V rows
  then show ?thesis
    using score_known_dot [of fitted ts3x4 2 1 U3 V4] by blast
qed

subsection \<open>C9: fit on a model that is not trainable\<close>

text \<open>
  C9. When \<open>trainable\<close> is false, \<open>fit\<close> returns normally, changes nothing but the
  attached training set, and the training routine plays no part: \<open>U\<close> and \<open>V\<close> after the
  call are the \<open>U\<close> and \<open>V\<close> the model held before it.
\<close>

theorem fit_not_trainable:
  assumes "\<not> trainable m"
  shows "fit bpr m ts = (Inr (), m\<lparr>train_set := Some ts\<rparr>)
           \<and> U (snd (fit bpr m ts)) = U m \<and> V (snd (fit bpr m ts)) = V m"
  using assms by (simp add: fit_def Recommender_fit_def)

text \<open>
  The theorem at the model holding supplied factors, with a training routine that would
  replace them by zeros.
\<close>

theorem fit_not_trainable_witness:
  "\<not> trainable pretrained
     \<and> fit bpr_zero pretrained ts3x4 = (Inr (), fitted)
     \<and> U (snd (fit bpr_zero pretrained ts3x4)) = Some U3
     \<and> V (snd (fit bpr_zero pretrained ts3x4)) = Some V4"
  using fit_not_trainable [of pretrained bpr_zero ts3x4]
  by (simp add: pretrained_def fitted_def)

subsection \<open>C10: restricted ranking as a permutation of the candidates\<close>

text \<open>
  C10 at the empty candidate list, whose elements are pairwise distinct. The call
  raises \<open>ValueError\<close> and returns no sequence, where the one permutation of the empty
  list is the empty sequence.
\<close>

theorem rank_perm_empty_candidates:
  "distinct ([] :: nat list) \<and> fst (rank stable_argsort 0 fitted 1 (Some [])) = Inl ValueError"
  by code_simp

end
